theory Spec2Isabelle
  imports Main "HOL-Library.AList"
begin

section \<open>Address book: fields, records, directory\<close>

text \<open>
  A shallow embedding of \<^verbatim>\<open>Task_1.py\<close> (the classes \<^verbatim>\<open>Field\<close>, \<^verbatim>\<open>Name\<close>, \<^verbatim>\<open>Phone\<close>,
  \<^verbatim>\<open>Birthday\<close>, \<^verbatim>\<open>Record\<close>, \<^verbatim>\<open>AddressBook\<close>; \<^verbatim>\<open>Task_2.py\<close> repeats them line by line).

  Python strings are modelled as \<open>string\<close>, a list of 8-bit characters. On that range the
  character class \<^verbatim>\<open>\d\<close> of Python's \<^verbatim>\<open>re\<close> is exactly \<^verbatim>\<open>0\<close>..\<^verbatim>\<open>9\<close>; decimal digits of other
  scripts lie outside the model.

  An exception is a value of type \<open>exn\<close>; a call that can raise returns \<open>exn + 'a\<close>.
  A method that mutates its object and can raise returns the exception, if any, together
  with the state of the object at that moment (\<open>exn option \<times> Record\<close>).
\<close>

datatype exn = ValueError string | OverflowError

subsection \<open>The fragment of Python's \<^verbatim>\<open>re\<close> that the program uses\<close>

text \<open>
  Patterns are built from character classes, sequence and alternation. \<open>rx_match r s\<close>
  lists every way in which \<open>r\<close> matches a prefix of \<open>s\<close>, as pairs of the text consumed and
  the text left, in the order in which a backtracking matcher tries them: the left
  alternative first, and for a sequence the later choices of the second part before the
  next choice of the first.
\<close>

datatype rx = Eps | Cls "char list" | Seq rx rx | Alt rx rx

fun rx_match :: "rx \<Rightarrow> string \<Rightarrow> (string \<times> string) list" where
  "rx_match Eps s = [([], s)]"
| "rx_match (Cls cs) s =
     (case s of [] \<Rightarrow> [] | c # t \<Rightarrow> if c \<in> set cs then [([c], t)] else [])"
| "rx_match (Seq a b) s =
     concat (map (\<lambda>(u, r). map (\<lambda>(v, t). (u @ v, t)) (rx_match b r)) (rx_match a s))"
| "rx_match (Alt a b) s = rx_match a s @ rx_match b s"

text \<open>\<^verbatim>\<open>r{n}\<close>: exactly \<open>n\<close> copies of \<open>r\<close> in sequence.\<close>

fun rx_times :: "nat \<Rightarrow> rx \<Rightarrow> rx" where
  "rx_times 0 r = Eps"
| "rx_times (Suc n) r = Seq r (rx_times n r)"

text \<open>\<^verbatim>\<open>\d\<close>, on 8-bit characters\<close>

definition dec_digits :: string where
  "dec_digits = ''0123456789''"

definition rx_digit :: rx where
  "rx_digit = Cls dec_digits"

text \<open>\<^verbatim>\<open>re.fullmatch(r, s) is not None\<close>: some way of matching consumes all of \<open>s\<close>.\<close>

definition re_fullmatch :: "rx \<Rightarrow> string \<Rightarrow> bool" where
  "re_fullmatch r s = list_ex (\<lambda>(u, t). t = []) (rx_match r s)"

subsection \<open>Fields\<close>

text \<open>
  \<^verbatim>\<open>Field.__init__\<close> stores its argument in \<^verbatim>\<open>value\<close>; the three subclasses are
  datatypes with one field each.
\<close>

datatype Name = Name (name_value: string)

datatype Phone = Phone (phone_value: string)

text \<open>\<^verbatim>\<open>Phone._validate\<close>: \<^verbatim>\<open>re.fullmatch(r"\d{10}", value) is not None\<close>\<close>

definition Phone_validate :: "string \<Rightarrow> bool" where
  "Phone_validate v = re_fullmatch (rx_times 10 rx_digit) v"

definition invalid_phone_format :: exn where
  "invalid_phone_format = ValueError ''Invalid phone number format. It should be 10 digits.''"

text \<open>\<^verbatim>\<open>Phone.__init__\<close>\<close>

definition Phone_init :: "string \<Rightarrow> exn + Phone" where
  "Phone_init v = (if Phone_validate v then Inr (Phone v) else Inl invalid_phone_format)"

subsection \<open>The part of \<^verbatim>\<open>datetime\<close> that the program uses\<close>

text \<open>
  The definitions of this subsection follow the reference implementation of the
  standard library (\<^verbatim>\<open>Lib/datetime.py\<close>, \<^verbatim>\<open>Lib/_strptime.py\<close> of CPython 3.11), function
  by function and under its names. Python's \<^verbatim>\<open>//\<close> and \<^verbatim>\<open>%\<close> round towards minus infinity,
  as \<open>div\<close> and \<open>mod\<close> on \<open>int\<close> do. The texts of the library's own exception messages are
  abridged: the program either replaces them (\<^verbatim>\<open>Birthday\<close>) or passes the exception on.
\<close>

record datetime =
  year :: int
  month :: int
  day :: int
  hour :: int
  minute :: int
  second :: int
  microsecond :: int

definition MINYEAR :: int where "MINYEAR = 1"
definition MAXYEAR :: int where "MAXYEAR = 9999"

definition DAYS_IN_MONTH :: "int list" where
  "DAYS_IN_MONTH = [-1, 31, 28, 31, 30, 31, 30, 31, 31, 30, 31, 30, 31]"


definition is_leap :: "int \<Rightarrow> bool" where
  "is_leap y = (y mod 4 = 0 \<and> (y mod 100 \<noteq> 0 \<or> y mod 400 = 0))"


text \<open>Called with \<open>1 \<le> m \<le> 12\<close> only (the library asserts it), so the index is in range.\<close>

definition days_in_month :: "int \<Rightarrow> int \<Rightarrow> int" where
  "days_in_month y m = (if m = 2 \<and> is_leap y then 29 else DAYS_IN_MONTH ! nat m)"





definition check_date_fields :: "int \<Rightarrow> int \<Rightarrow> int \<Rightarrow> exn + unit" where
  "check_date_fields y m d =
     (if \<not> (MINYEAR \<le> y \<and> y \<le> MAXYEAR) then Inl (ValueError ''year must be in 1..9999'')
      else if \<not> (1 \<le> m \<and> m \<le> 12) then Inl (ValueError ''month must be in 1..12'')
      else if \<not> (1 \<le> d \<and> d \<le> days_in_month y m)
        then Inl (ValueError ''day is out of range for month'')
      else Inr ())"

definition check_time_fields :: "int \<Rightarrow> int \<Rightarrow> int \<Rightarrow> int \<Rightarrow> exn + unit" where
  "check_time_fields h mi s us =
     (if \<not> (0 \<le> h \<and> h \<le> 23) then Inl (ValueError ''hour must be in 0..23'')
      else if \<not> (0 \<le> mi \<and> mi \<le> 59) then Inl (ValueError ''minute must be in 0..59'')
      else if \<not> (0 \<le> s \<and> s \<le> 59) then Inl (ValueError ''second must be in 0..59'')
      else if \<not> (0 \<le> us \<and> us \<le> 999999)
        then Inl (ValueError ''microsecond must be in 0..999999'')
      else Inr ())"

text \<open>The constructor \<^verbatim>\<open>datetime(year, month, day, hour, minute, second, microsecond)\<close>\<close>

definition datetime_new ::
    "int \<Rightarrow> int \<Rightarrow> int \<Rightarrow> int \<Rightarrow> int \<Rightarrow> int \<Rightarrow> int \<Rightarrow> exn + datetime" where
  "datetime_new y m d h mi s us =
     (case check_date_fields y m d of
        Inl e \<Rightarrow> Inl e
      | Inr _ \<Rightarrow>
          (case check_time_fields h mi s us of
             Inl e \<Rightarrow> Inl e
           | Inr _ \<Rightarrow> Inr \<lparr>year = y, month = m, day = d, hour = h, minute = mi,
                           second = s, microsecond = us\<rparr>))"







subsection \<open>\<^verbatim>\<open>datetime.strptime(value, "%d.%m.%Y")\<close>\<close>

text \<open>
  \<^verbatim>\<open>_strptime\<close> turns the format into a regular expression, one named group per directive
  and the dots escaped:
  \<^verbatim>\<open>(?P<d>3[0-1]|[1-2]\d|0[1-9]|[1-9]| [1-9])\.(?P<m>1[0-2]|0[1-9]|[1-9])\.(?P<Y>\d\d\d\d)\<close>
\<close>

definition rx_d :: rx where
  "rx_d = Alt (Seq (Cls ''3'') (Cls ''01''))
         (Alt (Seq (Cls ''12'') rx_digit)
         (Alt (Seq (Cls ''0'') (Cls ''123456789''))
         (Alt (Cls ''123456789'')
              (Seq (Cls '' '') (Cls ''123456789'')))))"

definition rx_m :: rx where
  "rx_m = Alt (Seq (Cls ''1'') (Cls ''012''))
         (Alt (Seq (Cls ''0'') (Cls ''123456789''))
              (Cls ''123456789''))"

definition rx_Y :: rx where
  "rx_Y = Seq rx_digit (Seq rx_digit (Seq rx_digit rx_digit))"

definition rx_dot :: rx where
  "rx_dot = Cls ''.''"

text \<open>
  Every match of the whole expression at the start of the string, in backtracking order,
  with the texts of the groups \<^verbatim>\<open>d\<close>, \<^verbatim>\<open>m\<close>, \<^verbatim>\<open>Y\<close> and the text after the match.
\<close>

definition format_regex_match :: "string \<Rightarrow> (string \<times> string \<times> string \<times> string) list" where
  "format_regex_match s =
     [(d, m, y, t4).
        (d, t0) \<leftarrow> rx_match rx_d s, (p, t1) \<leftarrow> rx_match rx_dot t0,
        (m, t2) \<leftarrow> rx_match rx_m t1, (q, t3) \<leftarrow> rx_match rx_dot t2,
        (y, t4) \<leftarrow> rx_match rx_Y t3]"

text \<open>
  \<^verbatim>\<open>int(s)\<close> on the text of a group: blanks around the number are skipped, then only
  decimal digits may follow (a group never holds a sign or an underscore).
\<close>

definition digit_val :: "char \<Rightarrow> int" where
  "digit_val c = int (of_char c) - 48"

definition py_int :: "string \<Rightarrow> exn + int" where
  "py_int s =
     (let t = dropWhile (\<lambda>c. c = CHR '' '') s
      in if t \<noteq> [] \<and> list_all (\<lambda>c. c \<in> set dec_digits) t
         then Inr (foldl (\<lambda>a c. 10 * a + digit_val c) 0 t)
         else Inl (ValueError ''invalid literal for int() with base 10''))"

text \<open>
  \<^verbatim>\<open>found = format_regex.match(data_string)\<close> takes the first match; text left after it is
  an error. The groups are converted in their order in the expression, and the
  constructor checks the date.
\<close>

definition strptime :: "string \<Rightarrow> exn + datetime" where
  "strptime data_string =
     (case format_regex_match data_string of
        [] \<Rightarrow> Inl (ValueError ''time data does not match format'')
      | (d, m, y, rest) # _ \<Rightarrow>
          if rest \<noteq> [] then Inl (ValueError ''unconverted data remains'')
          else (case py_int d of
                  Inl e \<Rightarrow> Inl e
                | Inr dd \<Rightarrow>
                   (case py_int m of
                      Inl e \<Rightarrow> Inl e
                    | Inr mm \<Rightarrow>
                       (case py_int y of
                          Inl e \<Rightarrow> Inl e
                        | Inr yy \<Rightarrow> datetime_new yy mm dd 0 0 0 0))))"

text \<open>
  \<^verbatim>\<open>dt.strftime("%d.%m.%Y")\<close>: day and month with two digits, the year with four, as the
  library documents \<^verbatim>\<open>%Y\<close> (\<^verbatim>\<open>0001\<close>, ..., \<^verbatim>\<open>9999\<close>). Where the C library underneath
  writes a year below 1000 without the leading zeros, the text is not of the form
  \<^verbatim>\<open>DD.MM.YYYY\<close> and this definition does not describe it. The fields of a valid datetime
  are in range, so a day or month has at most two digits and a year at most four.
\<close>

definition digit_char :: "int \<Rightarrow> char" where
  "digit_char n = dec_digits ! nat (n mod 10)"

definition zero_pad2 :: "int \<Rightarrow> string" where
  "zero_pad2 n = [digit_char (n div 10), digit_char n]"

definition zero_pad4 :: "int \<Rightarrow> string" where
  "zero_pad4 n = [digit_char (n div 1000), digit_char (n div 100), digit_char (n div 10),
                  digit_char n]"

definition strftime :: "datetime \<Rightarrow> string" where
  "strftime dt = zero_pad2 (day dt) @ ''.'' @ zero_pad2 (month dt) @ ''.'' @ zero_pad4 (year dt)"

text \<open>\<^verbatim>\<open>Birthday.__init__\<close>: any \<^verbatim>\<open>ValueError\<close> of \<^verbatim>\<open>strptime\<close> is replaced by the program's own.\<close>

datatype Birthday = Birthday (birthday_value: datetime)

definition invalid_date_format :: exn where
  "invalid_date_format = ValueError ''Invalid date format. Use DD.MM.YYYY''"

definition Birthday_init :: "string \<Rightarrow> exn + Birthday" where
  "Birthday_init v =
     (case strptime v of
        Inr dt \<Rightarrow> Inr (Birthday dt)
      | Inl (ValueError msg) \<Rightarrow> Inl invalid_date_format
      | Inl OverflowError \<Rightarrow> Inl OverflowError)"

subsection \<open>\<^verbatim>\<open>Record\<close>\<close>

record Record =
  name :: Name
  phones :: "Phone list"
  birthday :: "Birthday option"

text \<open>\<^verbatim>\<open>Record.__init__\<close> has no check and no way to raise.\<close>

definition Record_init :: "string \<Rightarrow> Record" where
  "Record_init n = \<lparr>name = Name n, phones = [], birthday = None\<rparr>"

text \<open>\<^verbatim>\<open>Record.add_phone\<close>: the argument \<^verbatim>\<open>Phone(phone)\<close> is evaluated before \<^verbatim>\<open>append\<close> runs.\<close>

definition add_phone :: "string \<Rightarrow> Record \<Rightarrow> exn option \<times> Record" where
  "add_phone phone r =
     (case Phone_init phone of
        Inl e \<Rightarrow> (Some e, r)
      | Inr p \<Rightarrow> (None, r\<lparr>phones := phones r @ [p]\<rparr>))"

text \<open>\<^verbatim>\<open>Record.find_phone\<close>: the first phone of the list with that value.\<close>

definition find_phone :: "string \<Rightarrow> Record \<Rightarrow> Phone option" where
  "find_phone phone r = List.find (\<lambda>p. phone_value p = phone) (phones r)"

text \<open>
  \<^verbatim>\<open>list.remove(x)\<close> deletes the first item equal to \<open>x\<close> and raises \<^verbatim>\<open>ValueError\<close> when
  there is none. \<^verbatim>\<open>Phone\<close> defines no \<^verbatim>\<open>__eq__\<close>, so Python compares the objects by identity.
  The object handed to \<^verbatim>\<open>remove\<close> is the one \<^verbatim>\<open>find_phone\<close> returned, the first of the list
  with its value, and every phone of the list is an object of its own (each \<^verbatim>\<open>add_phone\<close>
  creates one); so the item removed is the first with that value, which is what equality
  of values removes here.
\<close>

definition list_remove :: "'a \<Rightarrow> 'a list \<Rightarrow> exn + 'a list" where
  "list_remove x xs =
     (if x \<in> set xs then Inr (remove1 x xs) else Inl (ValueError ''list.remove(x): x not in list''))"

text \<open>\<^verbatim>\<open>Record.remove_phone\<close>; a \<^verbatim>\<open>Phone\<close> object is always true in a condition.\<close>

definition remove_phone :: "string \<Rightarrow> Record \<Rightarrow> exn option \<times> Record" where
  "remove_phone phone r =
     (case find_phone phone r of
        None \<Rightarrow> (None, r)
      | Some phone_to_remove \<Rightarrow>
          (case list_remove phone_to_remove (phones r) of
             Inl e \<Rightarrow> (Some e, r)
           | Inr ps \<Rightarrow> (None, r\<lparr>phones := ps\<rparr>)))"

text \<open>\<^verbatim>\<open>Record.edit_phone\<close>: the old phone is removed, then \<^verbatim>\<open>add_phone\<close> is called.\<close>

definition edit_phone :: "string \<Rightarrow> string \<Rightarrow> Record \<Rightarrow> exn option \<times> Record" where
  "edit_phone old_phone new_phone r =
     (case find_phone old_phone r of
        None \<Rightarrow> (None, r)
      | Some phone_to_edit \<Rightarrow>
          (case list_remove phone_to_edit (phones r) of
             Inl e \<Rightarrow> (Some e, r)
           | Inr ps \<Rightarrow> add_phone new_phone (r\<lparr>phones := ps\<rparr>)))"

text \<open>\<^verbatim>\<open>Record.add_birthday\<close>\<close>

definition add_birthday :: "string \<Rightarrow> Record \<Rightarrow> exn option \<times> Record" where
  "add_birthday b r =
     (case Birthday_init b of
        Inl e \<Rightarrow> (Some e, r)
      | Inr bd \<Rightarrow> (None, r\<lparr>birthday := Some bd\<rparr>))"

text \<open>\<^verbatim>\<open>sep.join(xs)\<close> and \<^verbatim>\<open>Record.__str__\<close>\<close>

fun str_join :: "string \<Rightarrow> string list \<Rightarrow> string" where
  "str_join sep [] = []"
| "str_join sep [x] = x"
| "str_join sep (x # y # ys) = x @ sep @ str_join sep (y # ys)"

definition Record_str :: "Record \<Rightarrow> string" where
  "Record_str r =
     ''Contact name: '' @ name_value (name r)
     @ '', phones: '' @ str_join ''; '' (map phone_value (phones r))
     @ '', birthday: ''
     @ (case birthday r of Some b \<Rightarrow> strftime (birthday_value b) | None \<Rightarrow> ''N/A'')"

subsection \<open>\<^verbatim>\<open>AddressBook\<close>\<close>

text \<open>
  \<^verbatim>\<open>UserDict.data\<close> is a dict from names to records. A dict keeps its keys in the order of
  their first insertion and has each key once: an association list, written to with
  \<open>AList.update\<close> (replace in place, or append at the end).
\<close>

type_synonym AddressBook = "(string \<times> Record) list"

text \<open>\<^verbatim>\<open>AddressBook.add_record\<close>: \<^verbatim>\<open>self.data[record.name.value] = record\<close>\<close>

definition add_record :: "Record \<Rightarrow> AddressBook \<Rightarrow> AddressBook" where
  "add_record r book = AList.update (name_value (name r)) r book"

text \<open>\<^verbatim>\<open>AddressBook.find\<close>: \<^verbatim>\<open>self.data.get(name)\<close>\<close>

definition book_find :: "string \<Rightarrow> AddressBook \<Rightarrow> Record option" where
  "book_find n book = map_of book n"

text \<open>\<^verbatim>\<open>AddressBook.delete\<close>\<close>

definition book_delete :: "string \<Rightarrow> AddressBook \<Rightarrow> AddressBook" where
  "book_delete n book = (if n \<in> fst ` set book then AList.delete n book else book)"



subsection \<open>Definitions used to state the properties\<close>

text \<open>
  The specification's constructor of a Record, \<^verbatim>\<open>new(name: NonEmptyString) -> Record\<close>,
  which fails on the empty name. It is compared with \<open>Record_init\<close> below.
\<close>

definition spec_Record_new :: "string \<Rightarrow> Record option" where
  "spec_Record_new n =
     (if n = [] then None else Some \<lparr>name = Name n, phones = [], birthday = None\<rparr>)"








section \<open>Phones\<close>

lemma rx_match_times_digit:
  "rx_match (rx_times n rx_digit) s =
     (if n \<le> length s \<and> (\<forall>c\<in>set (take n s). c \<in> set dec_digits)
      then [(take n s, drop n s)] else [])"
proof (induction n arbitrary: s)
  case 0
  show ?case by simp
next
  case (Suc n)
  show ?case
  proof (cases s)
    case Nil
    then show ?thesis by (simp add: rx_digit_def)
  next
    case (Cons c t)
    then show ?thesis using Suc[of t] by (auto simp add: rx_digit_def)
  qed
qed

lemma Phone_validate_iff:
  "Phone_validate v \<longleftrightarrow> length v = 10 \<and> (\<forall>c\<in>set v. c \<in> set dec_digits)"
  by (auto simp add: Phone_validate_def re_fullmatch_def rx_match_times_digit)



section \<open>Records\<close>

lemma find_Some_holds: "List.find P xs = Some x \<Longrightarrow> P x \<and> x \<in> set xs"
  by (induction xs) (auto split: if_splits)

lemma phone_value_eq: "phone_value p = v \<longleftrightarrow> p = Phone v"
  by (cases p) auto

lemma find_phone_Some:
  "find_phone v r = Some p \<Longrightarrow> p = Phone v \<and> p \<in> set (phones r)"
  unfolding find_phone_def by (drule find_Some_holds) (auto simp add: phone_value_eq)

lemma find_phone_None: "find_phone v r = None \<longleftrightarrow> Phone v \<notin> set (phones r)"
  by (simp add: find_phone_def find_None_iff phone_value_eq)

lemma find_phone_append:
  "find_phone v (r\<lparr>phones := phones r @ [Phone v]\<rparr>) = Some (Phone v)"
proof -
  have "find_phone v (r\<lparr>phones := phones r @ [Phone v]\<rparr>) \<noteq> None"
    by (simp add: find_phone_None)
  then obtain p where "find_phone v (r\<lparr>phones := phones r @ [Phone v]\<rparr>) = Some p" by blast
  then show ?thesis using find_phone_Some by blast
qed

lemma remove_phone_present:
  "Phone v \<in> set (phones r) \<Longrightarrow>
     remove_phone v r = (None, r\<lparr>phones := remove1 (Phone v) (phones r)\<rparr>)"
proof -
  assume a: "Phone v \<in> set (phones r)"
  then have "find_phone v r \<noteq> None" by (simp add: find_phone_None)
  then obtain p where p: "find_phone v r = Some p" by blast
  then have "p = Phone v" using find_phone_Some by blast
  with p a show ?thesis by (simp add: remove_phone_def list_remove_def)
qed

text \<open>
  Claim C9, as the program has it. \<^verbatim>\<open>Record.__init__\<close> checks nothing: for every name, the
  empty one too, it yields a Record with that name, no phones and no birthday.
\<close>

theorem Record_init_total:
  "name (Record_init n) = Name n \<and> phones (Record_init n) = [] \<and> birthday (Record_init n) = None"
  by (simp add: Record_init_def)

text \<open>
  The specification's constructor fails on the empty name; the program's returns a Record.
\<close>

theorem Record_init_empty_name_counterexample:
  "spec_Record_new '''' = None
   \<and> Record_init '''' = \<lparr>name = Name '''', phones = [], birthday = None\<rparr>"
  by (simp add: spec_Record_new_def Record_init_def)



text \<open>
  Claim C6, as the program has it. For a valid phone string \<open>v\<close>: \<^verbatim>\<open>add_phone(v)\<close> returns
  normally and \<^verbatim>\<open>find_phone(v)\<close> then returns a phone with value \<open>v\<close>; \<^verbatim>\<open>remove_phone(v)\<close>
  then returns normally, and after it \<^verbatim>\<open>find_phone(v)\<close> returns none exactly when the Record
  held no phone with value \<open>v\<close> before the \<^verbatim>\<open>add_phone\<close> (one occurrence is removed, and the
  list may hold the same value several times).
\<close>

theorem add_find_remove_phone:
  assumes "length v = 10 \<and> (\<forall>c\<in>set v. c \<in> set ''0123456789'')"
  shows "fst (add_phone v r) = None
    \<and> find_phone v (snd (add_phone v r)) = Some (Phone v)
    \<and> fst (remove_phone v (snd (add_phone v r))) = None
    \<and> (find_phone v (snd (remove_phone v (snd (add_phone v r)))) = None
         \<longleftrightarrow> Phone v \<notin> set (phones r))"
proof -
  let ?r1 = "r\<lparr>phones := phones r @ [Phone v]\<rparr>"
  from assms have "Phone_validate v" by (simp add: Phone_validate_iff dec_digits_def)
  then have add: "add_phone v r = (None, ?r1)" by (simp add: add_phone_def Phone_init_def)
  have rem: "remove_phone v ?r1 = (None, ?r1\<lparr>phones := remove1 (Phone v) (phones ?r1)\<rparr>)"
    by (rule remove_phone_present) simp
  have "Phone v \<in> set (remove1 (Phone v) (phones r @ [Phone v])) \<longleftrightarrow> Phone v \<in> set (phones r)"
    by (auto simp add: remove1_append)
  then show ?thesis by (simp add: add rem find_phone_append find_phone_None)
qed

theorem add_find_remove_phone_witness:
  "find_phone ''0501234567'' (snd (add_phone ''0501234567'' (Record_init ''Alice'')))
     = Some (Phone ''0501234567'')
   \<and> find_phone ''0501234567''
       (snd (remove_phone ''0501234567'' (snd (add_phone ''0501234567'' (Record_init ''Alice'')))))
     = None"
  using add_find_remove_phone[of "''0501234567''" "Record_init ''Alice''"]
  by (simp add: Record_init_def)

text \<open>
  A Record that already holds the phone: after \<^verbatim>\<open>add_phone\<close> and \<^verbatim>\<open>remove_phone\<close> of the same
  valid value, \<^verbatim>\<open>find_phone\<close> still returns a phone.
\<close>

theorem add_find_remove_duplicate_counterexample:
  "Phone_validate ''0501234567''
   \<and> find_phone ''0501234567''
        (snd (remove_phone ''0501234567''
           (snd (add_phone ''0501234567''
              \<lparr>name = Name ''Alice'', phones = [Phone ''0501234567''], birthday = None\<rparr>))))
     = Some (Phone ''0501234567'')"
  by (simp add: Phone_validate_iff dec_digits_def find_phone_def remove_phone_def add_phone_def
      Phone_init_def list_remove_def)

text \<open>
  Claim C4, evaluated on the program. \<^verbatim>\<open>edit_phone\<close> with an old value that is found and a
  new value that is not a valid phone raises the invalid-phone-format error, and the old
  phone has left the list by then.
\<close>

theorem edit_phone_invalid_loses_old:
  "edit_phone ''0501234567'' ''12345''
      \<lparr>name = Name ''Alice'', phones = [Phone ''0501234567''], birthday = None\<rparr>
     = (Some invalid_phone_format, \<lparr>name = Name ''Alice'', phones = [], birthday = None\<rparr>)"
  by (simp add: edit_phone_def find_phone_def list_remove_def add_phone_def Phone_init_def
      Phone_validate_iff)

section \<open>The directory\<close>

lemma filter_update_distinct:
  "distinct (map fst al) \<Longrightarrow>
     filter (\<lambda>kv. fst kv = k) (AList.update k v al) = [(k, v)]"
proof (induction al)
  case Nil
  show ?case by simp
next
  case (Cons p al)
  show ?case
  proof (cases "fst p = k")
    case True
    with Cons.prems have "\<forall>kv\<in>set al. fst kv \<noteq> k" by (auto simp add: image_iff)
    then have "filter (\<lambda>kv. fst kv = k) al = []" by (simp add: filter_empty_conv)
    with True show ?thesis by simp
  next
    case False
    with Cons show ?thesis by simp
  qed
qed

text \<open>
  Claim C7. In a directory (a dict: every key once), \<^verbatim>\<open>add_record\<close> of two Records with the
  same name, one after the other, leaves exactly one entry under that name, the second
  Record, and \<^verbatim>\<open>find\<close> returns it. \<^verbatim>\<open>add_record\<close> has no way to raise.
\<close>

theorem add_record_last_write_wins:
  assumes "distinct (map fst book)" and "name r1 = name r2"
  shows "filter (\<lambda>kv. fst kv = name_value (name r2)) (add_record r2 (add_record r1 book))
           = [(name_value (name r2), r2)]
    \<and> book_find (name_value (name r2)) (add_record r2 (add_record r1 book)) = Some r2"
proof -
  have "distinct (map fst (add_record r1 book))"
    using assms(1) by (simp add: add_record_def distinct_update)
  then show ?thesis
    by (simp add: add_record_def filter_update_distinct book_find_def update_conv')
qed

theorem add_record_last_write_wins_witness:
  "add_record \<lparr>name = Name ''Alice'', phones = [Phone ''0501234567''], birthday = None\<rparr>
     (add_record (Record_init ''Alice'') [(''Bob'', Record_init ''Bob'')])
   = [(''Bob'', Record_init ''Bob''),
      (''Alice'', \<lparr>name = Name ''Alice'', phones = [Phone ''0501234567''], birthday = None\<rparr>)]
   \<and> book_find ''Alice''
       (add_record \<lparr>name = Name ''Alice'', phones = [Phone ''0501234567''], birthday = None\<rparr>
         (add_record (Record_init ''Alice'') [(''Bob'', Record_init ''Bob'')]))
     = Some \<lparr>name = Name ''Alice'', phones = [Phone ''0501234567''], birthday = None\<rparr>"
  using add_record_last_write_wins[of "[(''Bob'', Record_init ''Bob'')]" "Record_init ''Alice''"
      "\<lparr>name = Name ''Alice'', phones = [Phone ''0501234567''], birthday = None\<rparr>"]
  by (simp add: add_record_def Record_init_def)

subsection \<open>The loop of \<^verbatim>\<open>get_upcoming_birthdays\<close>\<close>





subsection \<open>When \<^verbatim>\<open>get_upcoming_birthdays\<close> returns\<close>

















section \<open>Birthdays\<close>

subsection \<open>What the patterns of \<^verbatim>\<open>strptime\<close> match\<close>








































subsection \<open>The first match of the format\<close>












subsection \<open>\<^verbatim>\<open>strptime\<close> raises \<^verbatim>\<open>ValueError\<close> only\<close>







subsection \<open>What \<^verbatim>\<open>strftime\<close> writes, \<^verbatim>\<open>strptime\<close> reads\<close>







subsection \<open>\<^verbatim>\<open>Birthday\<close>\<close>






end
